theory Spec2Isabelle
  imports Complex_Main "HOL-Library.Word"
begin

section \<open>JavaScript strings\<close>

text \<open>
  A JavaScript string is a sequence of UTF-16 code units. String literals of the source are
  written \<open>js ''...''\<close>.
\<close>

type_synonym jsstring = "16 word list"

definition js :: "string \<Rightarrow> jsstring" where
  "js s = map of_char s"

text \<open>
  \<open>String.prototype.trim\<close> is a builtin of the language; it removes the code units of
  the ECMAScript productions WhiteSpace and LineTerminator from both ends.
\<close>

definition isWhiteSpace :: "16 word \<Rightarrow> bool" where
  "isWhiteSpace c \<longleftrightarrow>
     c \<in> set [0x0009, 0x000A, 0x000B, 0x000C, 0x000D, 0x0020, 0x00A0, 0x1680,
               0x2000, 0x2001, 0x2002, 0x2003, 0x2004, 0x2005, 0x2006, 0x2007,
               0x2008, 0x2009, 0x200A, 0x2028, 0x2029, 0x202F, 0x205F, 0x3000, 0xFEFF]"

definition trim :: "jsstring \<Rightarrow> jsstring" where
  "trim s = rev (dropWhile isWhiteSpace (rev (dropWhile isWhiteSpace s)))"

text \<open>A string is truthy exactly when it is not empty.\<close>

definition truthy :: "jsstring \<Rightarrow> bool" where
  "truthy s \<longleftrightarrow> s \<noteq> []"

text \<open>
  \<open>Number.prototype.toString\<close> on an integer (here always a millisecond clock reading):
  the decimal digits, with a leading minus sign for a negative value.
\<close>

fun digits :: "nat \<Rightarrow> jsstring" where
  "digits n = (if n < 10 then [of_nat (48 + n)] else digits (n div 10) @ [of_nat (48 + n mod 10)])"

declare digits.simps [simp del]

definition toString :: "int \<Rightarrow> jsstring" where
  "toString n = (if n < 0 then 0x2D # digits (nat (- n)) else digits (nat n))"

section \<open>types.ts\<close>

datatype Speaker = User | Model

record TranscriptItem =
  id_item :: jsstring
  text_item :: jsstring
  isPartial :: bool
  timestamp :: int
  speaker :: Speaker

datatype ConnectionState = DISCONNECTED | CONNECTING | CONNECTED | ERROR

section \<open>services/geminiLive.ts: the streaming session manager\<close>

subsection \<open>Resources and observable effects\<close>

text \<open>
  The resources the service holds are handles on objects of the platform. A session handle
  records whether its \<open>close\<close> method throws when called (the source expects that it may,
  and wraps the call in try/catch). A microphone stream carries its tracks.
\<close>

record LiveSession =
  session_id :: nat
  close_throws :: bool

datatype AudioContext = AudioContext nat

record MediaStream =
  stream_id :: nat
  tracks :: "nat list"

datatype ScriptProcessorNode = ScriptProcessorNode nat

datatype MediaStreamAudioSourceNode = MediaStreamAudioSourceNode nat

text \<open>The payload built from one chunk of samples.\<close>

record Blob =
  data :: jsstring
  mimeType :: jsstring

text \<open>The configuration object \<open>connect\<close> passes to \<open>ai.live.connect\<close>.\<close>

datatype Callback = Onopen | Onmessage | Onclose | Onerror

datatype Modality = AUDIO | TEXT

record LiveConfig =
  model :: jsstring
  callbacks :: "Callback list"
  responseModalities :: "Modality list"
  inputAudioTranscription :: bool
  systemInstruction :: jsstring

text \<open>
  Everything the service does to the outside world, in program order: calls on platform
  objects, console output, and the three observer callbacks given to its constructor.
\<close>

datatype Effect =
    ConsoleLog
  | ConsoleWarn
  | ConsoleError
  | NewAudioContext nat
  | GetUserMedia
  | LiveConnect LiveConfig
  | CreateMediaStreamSource AudioContext MediaStream
  | CreateScriptProcessor AudioContext nat nat nat
  | SetOnAudioProcess ScriptProcessorNode bool
  | SourceConnect MediaStreamAudioSourceNode ScriptProcessorNode
  | ProcessorConnectDestination ScriptProcessorNode AudioContext
  | SessionClose LiveSession
  | ProcessorDisconnect ScriptProcessorNode
  | SourceDisconnect MediaStreamAudioSourceNode
  | TrackStop nat
  | ContextClose AudioContext
  | SendRealtimeInput LiveSession Blob
  | OnTranscriptionUpdate TranscriptItem
  | OnStatusChange bool
  | OnError jsstring

record GeminiLiveService =
  session :: "LiveSession option"
  inputAudioContext :: "AudioContext option"
  stream :: "MediaStream option"
  processor :: "ScriptProcessorNode option"
  source :: "MediaStreamAudioSourceNode option"
  currentInputTranscription :: jsstring

subsection \<open>Incoming messages\<close>

text \<open>
  The part of a server message the handler reads. Every level is optional, as in the SDK's
  message type; an absent field is \<open>None\<close>.
\<close>

record Transcription =
  text_tr :: "jsstring option"

record LiveServerContent =
  inputTranscription :: "Transcription option"
  turnComplete :: "bool option"

record LiveServerMessage =
  serverContent :: "LiveServerContent option"

text \<open>
  \<open>emitTranscription\<close> reads the clock for the id of a finalized item and for the
  timestamp; \<open>now\<close> is that reading, in milliseconds.
\<close>

definition emitTranscription :: "int \<Rightarrow> bool \<Rightarrow> GeminiLiveService \<Rightarrow> Effect list" where
  "emitTranscription now partial s =
     [OnTranscriptionUpdate
        \<lparr>id_item = (if partial then js ''current-turn'' else toString now),
         text_item = currentInputTranscription s,
         isPartial = partial,
         timestamp = now,
         speaker = User\<rparr>]"

text \<open>The first \<open>if\<close> of \<open>handleOnMessage\<close>: the input transcription.\<close>

definition handleInputTranscription ::
  "int \<Rightarrow> LiveServerMessage \<Rightarrow> GeminiLiveService \<Rightarrow> GeminiLiveService \<times> Effect list" where
  "handleInputTranscription now m s =
     (case serverContent m of
        None \<Rightarrow> (s, [])
      | Some sc \<Rightarrow>
          (case inputTranscription sc of
             None \<Rightarrow> (s, [])
           | Some tr \<Rightarrow>
               (case text_tr tr of
                  None \<Rightarrow> (s, [])
                | Some t \<Rightarrow>
                    if truthy t then
                      (let s' = s\<lparr>currentInputTranscription := currentInputTranscription s @ t\<rparr>
                       in (s', emitTranscription now True s'))
                    else (s, []))))"

text \<open>The second \<open>if\<close> of \<open>handleOnMessage\<close>: the end of the turn.\<close>

definition handleTurnComplete ::
  "int \<Rightarrow> LiveServerMessage \<Rightarrow> GeminiLiveService \<Rightarrow> GeminiLiveService \<times> Effect list" where
  "handleTurnComplete now m s =
     (case serverContent m of
        None \<Rightarrow> (s, [])
      | Some sc \<Rightarrow>
          if turnComplete sc = Some True then
            (if truthy (trim (currentInputTranscription s)) then
               (s\<lparr>currentInputTranscription := []\<rparr>, emitTranscription now False s)
             else (s, []))
          else (s, []))"

definition handleOnMessage ::
  "int \<Rightarrow> LiveServerMessage \<Rightarrow> GeminiLiveService \<Rightarrow> GeminiLiveService \<times> Effect list" where
  "handleOnMessage now m s =
     (let (s1, out1) = handleInputTranscription now m s;
          (s2, out2) = handleTurnComplete now m s1
      in (s2, out1 @ out2))"

subsection \<open>Exceptions\<close>

text \<open>
  A thrown value (or the reason of a rejected promise) with its optional \<open>message\<close>.
  A computation of the service yields either the thrown value or its result, together with
  the state it leaves and the effects it performed up to that point.
\<close>

record JsError =
  message :: "jsstring option"

type_synonym 'a outcome = "(JsError + 'a) \<times> GeminiLiveService \<times> Effect list"

subsection \<open>disconnect\<close>

text \<open>
  \<open>session.close()\<close> is the one call of \<open>disconnect\<close> that may throw; the source wraps
  it in try/catch and logs a warning. The other platform calls (\<open>AudioNode.disconnect\<close>,
  \<open>MediaStreamTrack.stop\<close>, \<open>AudioContext.close\<close>, which reports failure through
  the promise it returns) do not throw.
\<close>

definition session_close :: "LiveSession \<Rightarrow> (JsError + unit) \<times> Effect list" where
  "session_close ss =
     (if close_throws ss then (Inl \<lparr>message = None\<rparr>, [SessionClose ss])
      else (Inr (), [SessionClose ss]))"

definition try_session_close :: "LiveSession \<Rightarrow> (JsError + unit) \<times> Effect list" where
  "try_session_close ss =
     (case session_close ss of
        (Inl e, out) \<Rightarrow> (Inr (), out @ [ConsoleWarn])
      | (Inr u, out) \<Rightarrow> (Inr u, out))"

definition disconnect :: "GeminiLiveService \<Rightarrow> unit outcome" where
  "disconnect s =
     (case (case session s of None \<Rightarrow> (Inr (), []) | Some ss \<Rightarrow> try_session_close ss) of
        (Inl e, out) \<Rightarrow> (Inl e, s, out)
      | (Inr _, out1) \<Rightarrow>
          (let out2 = (case processor s of None \<Rightarrow> []
                       | Some p \<Rightarrow> [ProcessorDisconnect p, SetOnAudioProcess p False]);
               out3 = (case source s of None \<Rightarrow> [] | Some src \<Rightarrow> [SourceDisconnect src]);
               out4 = (case stream s of None \<Rightarrow> [] | Some st \<Rightarrow> map TrackStop (tracks st));
               out5 = (case inputAudioContext s of None \<Rightarrow> [] | Some ctx \<Rightarrow> [ContextClose ctx]);
               s' = s\<lparr>session := None, processor := None, source := None, stream := None,
                      inputAudioContext := None, currentInputTranscription := []\<rparr>
           in (Inr (), s', out1 @ out2 @ out3 @ out4 @ out5 @ [OnStatusChange False])))"

definition getStream :: "GeminiLiveService \<Rightarrow> MediaStream option" where
  "getStream s = stream s"

subsection \<open>connect\<close>

text \<open>
  What the platform answers during one \<open>connect\<close>: the audio context constructor, the
  microphone request and the realtime connection each succeed with a handle or fail; so do
  the two node constructors of \<open>setupAudioProcessing\<close>.
\<close>

record ConnectEnv =
  context_result :: "JsError + AudioContext"
  media_result :: "JsError + MediaStream"
  live_result :: "JsError + LiveSession"
  source_result :: "JsError + MediaStreamAudioSourceNode"
  processor_result :: "JsError + ScriptProcessorNode"

definition setupAudioProcessing :: "ConnectEnv \<Rightarrow> GeminiLiveService \<Rightarrow> unit outcome" where
  "setupAudioProcessing env s =
     (case (inputAudioContext s, stream s) of
        (Some ctx, Some st) \<Rightarrow>
          (case source_result env of
             Inl e \<Rightarrow> (Inl e, s, [CreateMediaStreamSource ctx st])
           | Inr src \<Rightarrow>
               (let s1 = s\<lparr>source := Some src\<rparr> in
                case processor_result env of
                  Inl e \<Rightarrow>
                    (Inl e, s1, [CreateMediaStreamSource ctx st, CreateScriptProcessor ctx 4096 1 1])
                | Inr p \<Rightarrow>
                    (Inr (), s1\<lparr>processor := Some p\<rparr>,
                     [CreateMediaStreamSource ctx st, CreateScriptProcessor ctx 4096 1 1,
                      SetOnAudioProcess p True, SourceConnect src p,
                      ProcessorConnectDestination p ctx])))
      | _ \<Rightarrow> (Inr (), s, []))"

definition config :: LiveConfig where
  "config =
     \<lparr>model = js ''gemini-2.5-flash-native-audio-preview-12-2025'',
      callbacks = [Onopen, Onmessage, Onclose, Onerror],
      responseModalities = [AUDIO],
      inputAudioTranscription = True,
      systemInstruction =
        js ''You are a passive transcriber. Do not speak. Just listen and wait for the next input.''\<rparr>"

text \<open>
  The body of the \<open>try\<close> block of \<open>connect\<close>, run without an event interleaved at its
  two \<open>await\<close>s.
\<close>

definition connect_try :: "ConnectEnv \<Rightarrow> GeminiLiveService \<Rightarrow> unit outcome" where
  "connect_try env s =
     (case context_result env of
        Inl e \<Rightarrow> (Inl e, s, [NewAudioContext 16000])
      | Inr ctx \<Rightarrow>
          (let s1 = s\<lparr>inputAudioContext := Some ctx\<rparr> in
           case media_result env of
             Inl e \<Rightarrow> (Inl e, s1, [NewAudioContext 16000, GetUserMedia])
           | Inr st \<Rightarrow>
               (let s2 = s1\<lparr>stream := Some st\<rparr> in
                case live_result env of
                  Inl e \<Rightarrow> (Inl e, s2, [NewAudioContext 16000, GetUserMedia, LiveConnect config])
                | Inr ss \<Rightarrow>
                    (let s3 = s2\<lparr>session := Some ss\<rparr> in
                     case setupAudioProcessing env s3 of
                       (Inl e, s4, out) \<Rightarrow>
                         (Inl e, s4, [NewAudioContext 16000, GetUserMedia, LiveConnect config] @ out)
                     | (Inr _, s4, out) \<Rightarrow>
                         (Inr (), s4,
                          [NewAudioContext 16000, GetUserMedia, LiveConnect config] @ out
                            @ [OnStatusChange True])))))"

text \<open>\<open>error.message || "Failed to connect to Gemini Live Service"\<close>\<close>

definition error_message :: "JsError \<Rightarrow> jsstring" where
  "error_message e =
     (case message e of
        None \<Rightarrow> js ''Failed to connect to Gemini Live Service''
      | Some msg \<Rightarrow> if truthy msg then msg else js ''Failed to connect to Gemini Live Service'')"

definition connect :: "ConnectEnv \<Rightarrow> GeminiLiveService \<Rightarrow> unit outcome" where
  "connect env s =
     (case connect_try env s of
        (Inr u, s', out) \<Rightarrow> (Inr u, s', out)
      | (Inl e, s', out) \<Rightarrow>
          (case disconnect s' of
             (r, s'', out') \<Rightarrow> (r, s'', out @ [ConsoleError, OnError (error_message e)] @ out')))"

subsection \<open>The connection callbacks\<close>

definition handleOnOpen :: "GeminiLiveService \<Rightarrow> unit outcome" where
  "handleOnOpen s = (Inr (), s, [ConsoleLog])"

definition handleOnClose :: "GeminiLiveService \<Rightarrow> unit outcome" where
  "handleOnClose s =
     (case disconnect s of (r, s', out) \<Rightarrow> (r, s', ConsoleLog # out))"

definition handleOnError :: "GeminiLiveService \<Rightarrow> unit outcome" where
  "handleOnError s =
     (case disconnect s of
        (r, s', out) \<Rightarrow>
          (r, s', [ConsoleError, OnError (js ''Connection error occurred.'')] @ out))"

section \<open>services/geminiLive.ts: the PCM encoder\<close>

subsection \<open>Numbers\<close>

text \<open>
  A sample read from a \<open>Float32Array\<close> is a Number: a finite value, an infinity or NaN.
  Finite values are kept exact, as rationals. This is what the encoder computes: reading a
  32-bit float as a double is exact, so are \<open>Math.min\<close> and \<open>Math.max\<close>, and the
  product of a 24-bit significand with \<open>0x8000\<close> or \<open>0x7FFF\<close> fits the 53-bit significand
  of a double, so the multiplication does not round. Negative zero behaves as zero here.
\<close>

datatype number = Num rat | PosInf | NegInf | NaN

definition Math_min :: "number \<Rightarrow> number \<Rightarrow> number" where
  "Math_min a b =
     (case (a, b) of
        (NaN, _) \<Rightarrow> NaN
      | (_, NaN) \<Rightarrow> NaN
      | (NegInf, _) \<Rightarrow> NegInf
      | (_, NegInf) \<Rightarrow> NegInf
      | (PosInf, y) \<Rightarrow> y
      | (x, PosInf) \<Rightarrow> x
      | (Num x, Num y) \<Rightarrow> Num (min x y))"

definition Math_max :: "number \<Rightarrow> number \<Rightarrow> number" where
  "Math_max a b =
     (case (a, b) of
        (NaN, _) \<Rightarrow> NaN
      | (_, NaN) \<Rightarrow> NaN
      | (PosInf, _) \<Rightarrow> PosInf
      | (_, PosInf) \<Rightarrow> PosInf
      | (NegInf, y) \<Rightarrow> y
      | (x, NegInf) \<Rightarrow> x
      | (Num x, Num y) \<Rightarrow> Num (max x y))"

text \<open>\<open>a < b\<close> on Numbers: false whenever an operand is NaN.\<close>

definition lessThan_num :: "number \<Rightarrow> number \<Rightarrow> bool" where
  "lessThan_num a b =
     (case (a, b) of
        (NaN, _) \<Rightarrow> False
      | (_, NaN) \<Rightarrow> False
      | (Num x, Num y) \<Rightarrow> x < y
      | (NegInf, NegInf) \<Rightarrow> False
      | (NegInf, _) \<Rightarrow> True
      | (_, NegInf) \<Rightarrow> False
      | (PosInf, _) \<Rightarrow> False
      | (_, PosInf) \<Rightarrow> True)"

text \<open>\<open>a * k\<close> for a positive integer constant \<open>k\<close>.\<close>

definition times_const :: "number \<Rightarrow> int \<Rightarrow> number" where
  "times_const a k = (case a of Num x \<Rightarrow> Num (x * of_int k) | other \<Rightarrow> other)"

text \<open>
  Storing a Number into an \<open>Int16Array\<close> applies ToInt16: NaN and the infinities become 0,
  a finite value is truncated towards zero and reduced modulo \<open>2 ^ 16\<close>.
\<close>

definition trunc :: "rat \<Rightarrow> int" where
  "trunc x = (if x < 0 then - \<lfloor>- x\<rfloor> else \<lfloor>x\<rfloor>)"

definition ToInt16 :: "number \<Rightarrow> 16 word" where
  "ToInt16 a = (case a of Num x \<Rightarrow> word_of_int (trunc x) | _ \<Rightarrow> 0)"

subsection \<open>Bytes of the sample buffer\<close>

text \<open>
  \<open>new Uint8Array(int16.buffer)\<close> views the 16-bit elements in the byte order of the host.
\<close>

datatype Endianness = LittleEndian | BigEndian

definition int16_bytes :: "Endianness \<Rightarrow> 16 word \<Rightarrow> 8 word list" where
  "int16_bytes e w =
     (case e of
        LittleEndian \<Rightarrow> [ucast w, ucast (drop_bit 8 w)]
      | BigEndian \<Rightarrow> [ucast (drop_bit 8 w), ucast w])"

definition buffer_bytes :: "Endianness \<Rightarrow> 16 word list \<Rightarrow> 8 word list" where
  "buffer_bytes e ws = concat (map (int16_bytes e) ws)"

subsection \<open>Base64\<close>

text \<open>
  \<open>btoa\<close> is a builtin of the browser: it throws when a code unit of its argument exceeds
  255, and otherwise returns the padded base64 text (RFC 4648, standard alphabet) of the
  bytes the code units denote.
\<close>

definition b64char :: "nat \<Rightarrow> 16 word" where
  "b64char n =
     (if n < 26 then of_nat (65 + n)
      else if n < 52 then of_nat (71 + n)
      else if n < 62 then of_nat (n - 4)
      else if n = 62 then 43
      else 47)"

fun b64 :: "nat list \<Rightarrow> jsstring" where
  "b64 (a # b # c # rest) =
     [b64char (a div 4), b64char ((a mod 4) * 16 + b div 16),
      b64char ((b mod 16) * 4 + c div 64), b64char (c mod 64)] @ b64 rest"
| "b64 [a, b] =
     [b64char (a div 4), b64char ((a mod 4) * 16 + b div 16), b64char ((b mod 16) * 4), 61]"
| "b64 [a] = [b64char (a div 4), b64char ((a mod 4) * 16), 61, 61]"
| "b64 [] = []"

definition btoa :: "jsstring \<Rightarrow> JsError + jsstring" where
  "btoa binary =
     (if list_all (\<lambda>c. unat c \<le> 255) binary then Inr (b64 (map unat binary))
      else Inl \<lparr>message = Some (js ''InvalidCharacterError'')\<rparr>)"

text \<open>
  The decoder for padded base64 text, the inverse a receiver of the payload applies:
  \<open>None\<close> on text that is not well formed.
\<close>

definition b64val :: "16 word \<Rightarrow> nat option" where
  "b64val c =
     (let k = unat c in
      if 65 \<le> k \<and> k \<le> 90 then Some (k - 65)
      else if 97 \<le> k \<and> k \<le> 122 then Some (k - 71)
      else if 48 \<le> k \<and> k \<le> 57 then Some (k + 4)
      else if k = 43 then Some 62
      else if k = 47 then Some 63
      else None)"

fun base64_decode :: "jsstring \<Rightarrow> 8 word list option" where
  "base64_decode (c1 # c2 # c3 # c4 # rest) =
     (case (b64val c1, b64val c2) of
        (Some v1, Some v2) \<Rightarrow>
          if rest = [] \<and> c3 = 61 \<and> c4 = 61 then Some [of_nat (v1 * 4 + v2 div 16)]
          else
            (case b64val c3 of
               None \<Rightarrow> None
             | Some v3 \<Rightarrow>
                 if rest = [] \<and> c4 = 61 then
                   Some [of_nat (v1 * 4 + v2 div 16), of_nat ((v2 mod 16) * 16 + v3 div 4)]
                 else
                   (case b64val c4 of
                      None \<Rightarrow> None
                    | Some v4 \<Rightarrow>
                        (case base64_decode rest of
                           None \<Rightarrow> None
                         | Some bs \<Rightarrow>
                             Some (of_nat (v1 * 4 + v2 div 16)
                                   # of_nat ((v2 mod 16) * 16 + v3 div 4)
                                   # of_nat ((v3 mod 4) * 64 + v4) # bs))))
      | _ \<Rightarrow> None)"
| "base64_decode [] = Some []"
| "base64_decode _ = None"

subsection \<open>encode and createBlob\<close>

text \<open>
  \<open>encode\<close> appends \<open>String.fromCharCode(bytes[i])\<close> for each byte and passes the string
  to \<open>btoa\<close>.
\<close>

definition encode :: "8 word list \<Rightarrow> JsError + jsstring" where
  "encode bytes = btoa (map ucast bytes)"

text \<open>One round of the loop of \<open>createBlob\<close>: the 16-bit value stored for a sample.\<close>

definition sample_int16 :: "number \<Rightarrow> 16 word" where
  "sample_int16 x =
     (let s = Math_max (Num (- 1)) (Math_min (Num 1) x)
      in ToInt16 (if lessThan_num s (Num 0) then times_const s 0x8000 else times_const s 0x7FFF))"

definition createBlob :: "Endianness \<Rightarrow> number list \<Rightarrow> JsError + Blob" where
  "createBlob e samples =
     (let int16 = map sample_int16 samples
      in case encode (buffer_bytes e int16) of
           Inl err \<Rightarrow> Inl err
         | Inr d \<Rightarrow> Inr \<lparr>data = d, mimeType = js ''audio/pcm;rate=16000''\<rparr>)"

text \<open>
  The audio tap installed by \<open>setupAudioProcessing\<close>: each chunk is encoded and sent on the
  session the connection promise resolved to.
\<close>

definition onaudioprocess :: "Endianness \<Rightarrow> LiveSession \<Rightarrow> number list \<Rightarrow> (JsError + unit) \<times> Effect list" where
  "onaudioprocess e ss inputData =
     (case createBlob e inputData of
        Inl err \<Rightarrow> (Inl err, [])
      | Inr pcmBlob \<Rightarrow> (Inr (), [SendRealtimeInput ss pcmBlob]))"

section \<open>App.tsx: the transcript store and the batch transcription client\<close>

subsection \<open>State\<close>

text \<open>
  The state of the component: its \<open>useState\<close> cells and the \<open>liveService\<close> ref, which is
  null until the component is mounted.
\<close>

record App =
  connectionState :: ConnectionState
  transcripts :: "TranscriptItem list"
  currentText :: jsstring
  error :: "jsstring option"
  audioStream :: "MediaStream option"
  isUploading :: bool
  uploadStatus :: jsstring
  isCopied :: bool
  liveService :: "GeminiLiveService option"

subsection \<open>The observer callbacks\<close>

definition handleTranscriptionUpdate :: "TranscriptItem \<Rightarrow> App \<Rightarrow> App" where
  "handleTranscriptionUpdate item a =
     (if isPartial item then a\<lparr>currentText := text_item item\<rparr>
      else a\<lparr>transcripts := transcripts a @ [item], currentText := []\<rparr>)"

definition handleStatusChange :: "bool \<Rightarrow> App \<Rightarrow> App" where
  "handleStatusChange isConnected a =
     (let a1 = a\<lparr>connectionState := (if isConnected then CONNECTED else DISCONNECTED)\<rparr>
      in case liveService a1 of
           Some svc \<Rightarrow>
             if isConnected then a1\<lparr>audioStream := getStream svc, error := None\<rparr>
             else a1\<lparr>audioStream := None\<rparr>
         | None \<Rightarrow> a1\<lparr>audioStream := None\<rparr>)"

definition handleError :: "jsstring \<Rightarrow> App \<Rightarrow> App" where
  "handleError errMessage a = a\<lparr>error := Some errMessage, connectionState := ERROR\<rparr>"

text \<open>
  The constructor call in the mount effect wires the three callbacks of the service to these
  handlers; every other effect of the service leaves the component alone.
\<close>

definition deliver :: "Effect \<Rightarrow> App \<Rightarrow> App" where
  "deliver e a =
     (case e of
        OnTranscriptionUpdate item \<Rightarrow> handleTranscriptionUpdate item a
      | OnStatusChange b \<Rightarrow> handleStatusChange b a
      | OnError msg \<Rightarrow> handleError msg a
      | _ \<Rightarrow> a)"

text \<open>What the component does beyond its own state, in program order.\<close>

record File =
  size_file :: nat
  type_file :: jsstring
  name_file :: jsstring

datatype ContentPart =
    InlineData jsstring jsstring
  | FileData jsstring jsstring

datatype AppEffect =
    Service Effect
  | WindowConfirm
  | ConsoleErrorApp
  | FileToBase64 File
  | FilesUpload File
  | Sleep nat
  | FilesGet "jsstring option"
  | GenerateContent ContentPart
  | ResetFileInput

text \<open>\<open>liveService.current?.disconnect()\<close>, with the callbacks it fires.\<close>

definition liveService_disconnect :: "App \<Rightarrow> App \<times> AppEffect list" where
  "liveService_disconnect a =
     (case liveService a of
        None \<Rightarrow> (a, [])
      | Some svc \<Rightarrow>
          (case disconnect svc of
             (r, svc', out) \<Rightarrow>
               (fold deliver out (a\<lparr>liveService := Some svc'\<rparr>), map Service out)))"

subsection \<open>clearTranscripts\<close>

text \<open>\<open>answer\<close> is what \<open>window.confirm\<close> returns if it is called.\<close>

definition clearTranscripts :: "bool \<Rightarrow> App \<Rightarrow> App \<times> AppEffect list" where
  "clearTranscripts answer a =
     (if transcripts a = [] \<and> \<not> truthy (currentText a) then (a, [])
      else if answer then
        (let a1 = a\<lparr>transcripts := []\<rparr>
         in (if connectionState a \<noteq> CONNECTED then a1\<lparr>currentText := []\<rparr> else a1,
             [WindowConfirm]))
      else (a, [WindowConfirm]))"

subsection \<open>handleFileUpload\<close>

text \<open>
  The answers of the remote file endpoints. A response holds the file description either
  under \<open>file\<close> or at its top level; the source takes \<open>response.file || response\<close>.
\<close>

record FileInfo =
  uri :: "jsstring option"
  state :: "jsstring option"
  name :: "jsstring option"
  mimeType_info :: "jsstring option"

record FileResponse =
  file_resp :: "FileInfo option"
  top :: FileInfo

definition fileResult_of :: "FileResponse \<Rightarrow> FileInfo" where
  "fileResult_of r = (case file_resp r of Some f \<Rightarrow> f | None \<Rightarrow> top r)"

text \<open>
  What the outside answers during one upload: the file reader, the upload call, the
  successive polls of \<open>ai.files.get\<close> (as many as have been answered), the transcription
  request, and the clock.
\<close>

record UploadEnv =
  read_result :: "JsError + jsstring"
  upload_result :: "JsError + FileResponse"
  get_results :: "(JsError + FileResponse) list"
  generate_result :: "JsError + jsstring option"
  clock :: int

text \<open>\<open>e.message || fallback\<close>\<close>

definition message_or :: "JsError \<Rightarrow> jsstring \<Rightarrow> jsstring" where
  "message_or e fallback =
     (case message e of None \<Rightarrow> fallback | Some msg \<Rightarrow> if truthy msg then msg else fallback)"

definition Error :: "jsstring \<Rightarrow> JsError" where
  "Error msg = \<lparr>message = Some msg\<rparr>"

text \<open>
  The loop \<open>while (state === 'PROCESSING')\<close>. Each round waits a second and consumes one
  answer of \<open>ai.files.get\<close>; the result is \<open>None\<close> when the answers run out while the
  state is still \<open>PROCESSING\<close>, that is, when the loop has not returned.
\<close>

fun poll :: "jsstring option \<Rightarrow> jsstring option \<Rightarrow> (JsError + FileResponse) list
    \<Rightarrow> ((JsError + unit) \<times> AppEffect list) option" where
  "poll st fileName answers =
     (if st \<noteq> Some (js ''PROCESSING'') then Some (Inr (), [])
      else
        (case answers of
           [] \<Rightarrow> None
         | r # rest \<Rightarrow>
             (case r of
                Inl e \<Rightarrow> Some (Inl e, [Sleep 1000, FilesGet fileName])
              | Inr getResponse \<Rightarrow>
                  (let st' = state (fileResult_of getResponse) in
                   if st' = Some (js ''FAILED'') then
                     Some (Inl (Error (js ''File processing failed on server.'')),
                           [Sleep 1000, FilesGet fileName])
                   else
                     (case poll st' fileName rest of
                        None \<Rightarrow> None
                      | Some (res, out) \<Rightarrow> Some (res, [Sleep 1000, FilesGet fileName] @ out))))))"

declare poll.simps [simp del]

text \<open>The inner \<open>try\<close> block of the large-file branch.\<close>

definition upload_try :: "UploadEnv \<Rightarrow> File \<Rightarrow> ((JsError + ContentPart) \<times> AppEffect list) option" where
  "upload_try env f =
     (case upload_result env of
        Inl e \<Rightarrow> Some (Inl e, [FilesUpload f])
      | Inr uploadResponse \<Rightarrow>
          (let fileResult = fileResult_of uploadResponse in
           case uri fileResult of
             None \<Rightarrow>
               Some (Inl (Error (js ''Upload failed: No file URI returned from server.'')),
                     [FilesUpload f, ConsoleErrorApp])
           | Some fileUri \<Rightarrow>
               if \<not> truthy fileUri then
                 Some (Inl (Error (js ''Upload failed: No file URI returned from server.'')),
                       [FilesUpload f, ConsoleErrorApp])
               else
                 (case poll (state fileResult) (name fileResult) (get_results env) of
                    None \<Rightarrow> None
                  | Some (Inl e, out) \<Rightarrow> Some (Inl e, FilesUpload f # out)
                  | Some (Inr _, out) \<Rightarrow>
                      Some (Inr (FileData fileUri
                                   (case mimeType_info fileResult of
                                      None \<Rightarrow> type_file f
                                    | Some mt \<Rightarrow> if truthy mt then mt else type_file f)),
                            FilesUpload f # out))))"

text \<open>The size test and its two branches, which build \<open>contentPart\<close>.\<close>

definition contentPart_of :: "UploadEnv \<Rightarrow> File \<Rightarrow> ((JsError + ContentPart) \<times> AppEffect list) option" where
  "contentPart_of env f =
     (if size_file f < 20 * 1024 * 1024 then
        (case read_result env of
           Inl e \<Rightarrow> Some (Inl e, [FileToBase64 f])
         | Inr base64Data \<Rightarrow> Some (Inr (InlineData (type_file f) base64Data), [FileToBase64 f]))
      else
        (case upload_try env f of
           None \<Rightarrow> None
         | Some (Inl uploadError, out) \<Rightarrow>
             Some (Inl (Error (js ''Large file upload failed: ''
                               @ message_or uploadError (js ''Unknown error'')
                               @ js ''. Try a smaller file.'')),
                   out @ [ConsoleErrorApp])
         | Some (Inr part, out) \<Rightarrow> Some (Inr part, out)))"

text \<open>The outer \<open>try\<close> block: build the content part, request the transcription, store it.\<close>

definition transcribe_try :: "UploadEnv \<Rightarrow> File \<Rightarrow> App \<Rightarrow> ((JsError + unit) \<times> App \<times> AppEffect list) option" where
  "transcribe_try env f a =
     (case contentPart_of env f of
        None \<Rightarrow> None
      | Some (Inl e, out) \<Rightarrow> Some (Inl e, a, out)
      | Some (Inr contentPart, out) \<Rightarrow>
          (case generate_result env of
             Inl e \<Rightarrow> Some (Inl e, a, out @ [GenerateContent contentPart])
           | Inr response_text \<Rightarrow>
               (case response_text of
                  None \<Rightarrow> Some (Inr (), a, out @ [GenerateContent contentPart])
                | Some txt \<Rightarrow>
                    if truthy txt then
                      Some (Inr (),
                            a\<lparr>transcripts := transcripts a @
                                 [\<lparr>id_item = toString (clock env), text_item = txt,
                                   isPartial = False, timestamp = clock env, speaker = User\<rparr>]\<rparr>,
                            out @ [GenerateContent contentPart])
                    else Some (Inr (), a, out @ [GenerateContent contentPart]))))"

definition handleFileUpload :: "UploadEnv \<Rightarrow> File option \<Rightarrow> App \<Rightarrow> (App \<times> AppEffect list) option" where
  "handleFileUpload env selected a =
     (case selected of
        None \<Rightarrow> Some (a, [])
      | Some f \<Rightarrow>
          (let a1 = a\<lparr>isUploading := True, error := None, uploadStatus := js ''Preparing...''\<rparr>;
               (a2, out0) = (if connectionState a = CONNECTED then liveService_disconnect a1
                             else (a1, []))
           in case transcribe_try env f a2 of
                None \<Rightarrow> None
              | Some (res, a3, out1) \<Rightarrow>
                  (let (a4, out2) =
                         (case res of
                            Inl e \<Rightarrow>
                              (a3\<lparr>error := Some (message_or e
                                      (js ''Failed to transcribe file. Please try again.''))\<rparr>,
                               [ConsoleErrorApp])
                          | Inr _ \<Rightarrow> (a3, []))
                   in Some (a4\<lparr>isUploading := False, uploadStatus := []\<rparr>,
                            out0 @ out1 @ out2 @ [ResetFileInput]))))"

section \<open>Vocabulary of the properties\<close>

text \<open>
  The fragment a message carries: the text of its input transcription, empty when the
  message has none.
\<close>

definition fragment :: "LiveServerMessage \<Rightarrow> jsstring" where
  "fragment m =
     (case serverContent m of
        None \<Rightarrow> []
      | Some sc \<Rightarrow>
          (case inputTranscription sc of
             None \<Rightarrow> []
           | Some tr \<Rightarrow> (case text_tr tr of None \<Rightarrow> [] | Some t \<Rightarrow> t)))"

text \<open>Whether a message signals the end of the turn.\<close>

definition isTurnComplete :: "LiveServerMessage \<Rightarrow> bool" where
  "isTurnComplete m =
     (case serverContent m of None \<Rightarrow> False | Some sc \<Rightarrow> turnComplete sc = Some True)"

text \<open>The items handed to \<open>onTranscriptionUpdate\<close> in a run of effects, in order.\<close>

definition updates :: "Effect list \<Rightarrow> TranscriptItem list" where
  "updates out = concat (map (\<lambda>e. case e of OnTranscriptionUpdate i \<Rightarrow> [i] | _ \<Rightarrow> []) out)"

text \<open>The arguments of the calls of \<open>onStatusChange\<close> in a run of effects, in order.\<close>

definition statusChanges :: "Effect list \<Rightarrow> bool list" where
  "statusChanges out = concat (map (\<lambda>e. case e of OnStatusChange b \<Rightarrow> [b] | _ \<Rightarrow> []) out)"

text \<open>The state in which the service holds no resource and no pending text.\<close>

definition released :: GeminiLiveService where
  "released =
     \<lparr>session = None, inputAudioContext = None, stream = None, processor = None,
      source = None, currentInputTranscription = []\<rparr>"

text \<open>Concrete messages and service states, used to instantiate the theorems.\<close>

definition msg :: "jsstring option \<Rightarrow> bool \<Rightarrow> LiveServerMessage" where
  "msg t tc =
     \<lparr>serverContent =
        Some \<lparr>inputTranscription = (case t of None \<Rightarrow> None | Some x \<Rightarrow> Some \<lparr>text_tr = Some x\<rparr>),
              turnComplete = (if tc then Some True else None)\<rparr>\<rparr>"

definition holding :: "jsstring \<Rightarrow> GeminiLiveService" where
  "holding buf = released\<lparr>currentInputTranscription := buf\<rparr>"

text \<open>The state of the component when it is first rendered, and once it is mounted.\<close>

definition initial :: App where
  "initial =
     \<lparr>connectionState = DISCONNECTED, transcripts = [], currentText = [], error = None,
      audioStream = None, isUploading = False, uploadStatus = [], isCopied = False,
      liveService = None\<rparr>"

definition mounted :: App where
  "mounted = initial\<lparr>liveService := Some released\<rparr>"

definition final_item :: "jsstring \<Rightarrow> TranscriptItem" where
  "final_item t =
     \<lparr>id_item = js ''1'', text_item = t, isPartial = False, timestamp = 1, speaker = User\<rparr>"

text \<open>An effect that is not one of the three observer callbacks.\<close>

definition quiet :: "Effect \<Rightarrow> bool" where
  "quiet e =
     (case e of
        OnTranscriptionUpdate i \<Rightarrow> False
      | OnStatusChange b \<Rightarrow> False
      | OnError em \<Rightarrow> False
      | _ \<Rightarrow> True)"

text \<open>
  The operations on the state of the component: the three observer callbacks, a file
  selection, and a click on the clear button with the answer given to the confirmation.
\<close>

datatype StoreOp =
    TranscriptionUpdate TranscriptItem
  | StatusChange bool
  | ErrorReport jsstring
  | FileUpload UploadEnv "File option"
  | ClearTranscripts bool

definition store_step :: "StoreOp \<Rightarrow> App \<Rightarrow> App option" where
  "store_step op a =
     (case op of
        TranscriptionUpdate item \<Rightarrow> Some (handleTranscriptionUpdate item a)
      | StatusChange b \<Rightarrow> Some (handleStatusChange b a)
      | ErrorReport em \<Rightarrow> Some (handleError em a)
      | FileUpload env selected \<Rightarrow> map_option fst (handleFileUpload env selected a)
      | ClearTranscripts answer \<Rightarrow> Some (fst (clearTranscripts answer a)))"

text \<open>
  The number of in-progress entries the component holds: the partial items in the list and
  the in-progress text, when there is one.
\<close>

definition partial_entries :: "App \<Rightarrow> nat" where
  "partial_entries a =
     length (filter isPartial (transcripts a)) + (if truthy (currentText a) then 1 else 0)"

text \<open>Concrete files and answers of the outside, used to instantiate the theorems.\<close>

definition wav :: "nat \<Rightarrow> File" where
  "wav n = \<lparr>size_file = n, type_file = js ''audio/wav'', name_file = js ''a.wav''\<rparr>"

definition info :: "string \<Rightarrow> FileResponse" where
  "info st =
     \<lparr>file_resp = None,
      top = \<lparr>uri = Some (js ''files/u1''), state = Some (js st), name = Some (js ''u1''),
             mimeType_info = None\<rparr>\<rparr>"

definition answers :: UploadEnv where
  "answers =
     \<lparr>read_result = Inr (js ''UklGRg==''),
      upload_result = Inr (info ''PROCESSING''),
      get_results = [Inr (info ''ACTIVE'')],
      generate_result = Inr (Some (js ''hello'')),
      clock = 7\<rparr>"

section \<open>Incoming message handling\<close>

lemma updates_simps:
  "updates [] = []"
  "updates (OnTranscriptionUpdate i # out) = i # updates out"
  "updates (xs @ ys) = updates xs @ updates ys"
  by (simp_all add: updates_def)

lemma handleInputTranscription_eq:
  "handleInputTranscription now m s =
     (if fragment m \<noteq> [] then
        (s\<lparr>currentInputTranscription := currentInputTranscription s @ fragment m\<rparr>,
         [OnTranscriptionUpdate
            \<lparr>id_item = js ''current-turn'',
             text_item = currentInputTranscription s @ fragment m,
             isPartial = True, timestamp = now, speaker = User\<rparr>])
      else (s, []))"
  by (simp add: handleInputTranscription_def fragment_def truthy_def emitTranscription_def
           split: option.splits)

lemma handleTurnComplete_eq:
  "handleTurnComplete now m s =
     (if isTurnComplete m \<and> trim (currentInputTranscription s) \<noteq> [] then
        (s\<lparr>currentInputTranscription := []\<rparr>,
         [OnTranscriptionUpdate
            \<lparr>id_item = toString now, text_item = currentInputTranscription s,
             isPartial = False, timestamp = now, speaker = User\<rparr>])
      else (s, []))"
  by (simp add: handleTurnComplete_def isTurnComplete_def truthy_def emitTranscription_def
           split: option.splits)

lemma msg_simps:
  "fragment (msg (Some t) tc) = t"
  "fragment (msg None tc) = []"
  "isTurnComplete (msg ot tc) = tc"
  by (simp_all add: msg_def fragment_def isTurnComplete_def)

lemma holding_buffer: "currentInputTranscription (holding buf) = buf"
  by (simp add: holding_def released_def)

lemma trim_examples:
  "trim (js ''hello world'') \<noteq> []"
  "trim (js ''  '') = []"
  "trim [] = []"
  by (simp_all add: trim_def js_def isWhiteSpace_def)

text \<open>
  C1. Let \<open>acc\<close> be the buffer followed by the fragment of the message. A message with a
  (non-empty) fragment hands the observer exactly one partial item, whose text is \<open>acc\<close>,
  the whole accumulated text. A turn-complete message with \<open>acc\<close> non-empty after trimming
  hands over exactly one finalized item with text \<open>acc\<close> and leaves the buffer empty; when
  \<open>acc\<close> trims to empty it hands over no finalized item. A message that is not turn-complete
  finalizes nothing and leaves \<open>acc\<close> in the buffer; one without a fragment emits no partial
  item.
\<close>

theorem handleOnMessage_emits:
  fixes m :: LiveServerMessage and s :: GeminiLiveService
  shows
  "(fragment m \<noteq> [] \<longrightarrow>
      filter isPartial (updates (snd (handleOnMessage now m s))) =
        [\<lparr>id_item = js ''current-turn'',
          text_item = currentInputTranscription s @ fragment m,
          isPartial = True, timestamp = now, speaker = User\<rparr>])
   \<and> (isTurnComplete m \<and> trim (currentInputTranscription s @ fragment m) \<noteq> [] \<longrightarrow>
      filter (\<lambda>i. \<not> isPartial i) (updates (snd (handleOnMessage now m s))) =
        [\<lparr>id_item = toString now,
          text_item = currentInputTranscription s @ fragment m,
          isPartial = False, timestamp = now, speaker = User\<rparr>]
      \<and> currentInputTranscription (fst (handleOnMessage now m s)) = [])
   \<and> (isTurnComplete m \<and> trim (currentInputTranscription s @ fragment m) = [] \<longrightarrow>
      filter (\<lambda>i. \<not> isPartial i) (updates (snd (handleOnMessage now m s))) = [])
   \<and> (\<not> isTurnComplete m \<longrightarrow>
      filter (\<lambda>i. \<not> isPartial i) (updates (snd (handleOnMessage now m s))) = []
      \<and> currentInputTranscription (fst (handleOnMessage now m s)) =
          currentInputTranscription s @ fragment m)
   \<and> (fragment m = [] \<longrightarrow> filter isPartial (updates (snd (handleOnMessage now m s))) = [])"
  by (simp add: handleOnMessage_def handleInputTranscription_eq handleTurnComplete_eq
        updates_simps)

theorem handleOnMessage_emits_witness:
  "fragment (msg (Some (js ''world'')) True) \<noteq> []
   \<and> isTurnComplete (msg (Some (js ''world'')) True)
   \<and> trim (currentInputTranscription (holding (js ''hello '')) @ fragment (msg (Some (js ''world'')) True)) \<noteq> []
   \<and> filter isPartial (updates (snd (handleOnMessage 42 (msg (Some (js ''world'')) True) (holding (js ''hello ''))))) =
        [\<lparr>id_item = js ''current-turn'', text_item = js ''hello world'',
          isPartial = True, timestamp = 42, speaker = User\<rparr>]
   \<and> filter (\<lambda>i. \<not> isPartial i) (updates (snd (handleOnMessage 42 (msg (Some (js ''world'')) True) (holding (js ''hello ''))))) =
        [\<lparr>id_item = js ''42'', text_item = js ''hello world'',
          isPartial = False, timestamp = 42, speaker = User\<rparr>]
   \<and> currentInputTranscription (fst (handleOnMessage 42 (msg (Some (js ''world'')) True) (holding (js ''hello '')))) = []
   \<and> fragment (msg None True) = []
   \<and> trim (currentInputTranscription (holding (js ''  '')) @ fragment (msg None True)) = []
   \<and> filter (\<lambda>i. \<not> isPartial i) (updates (snd (handleOnMessage 42 (msg None True) (holding (js ''  ''))))) = []
   \<and> \<not> isTurnComplete (msg (Some (js ''world'')) False)
   \<and> currentInputTranscription (fst (handleOnMessage 42 (msg (Some (js ''world'')) False) (holding (js ''hello '')))) = js ''hello world''"
proof -
  have ne: "js ''world'' \<noteq> []" by (simp add: js_def)
  have cat: "js ''hello '' @ js ''world'' = js ''hello world''" by (simp add: js_def)
  have ts: "toString 42 = js ''42''" by (simp add: toString_def digits.simps js_def)
  note a = handleOnMessage_emits [where m = "msg (Some (js ''world'')) True" and now = 42
              and s = "holding (js ''hello '')"]
  note b = handleOnMessage_emits [where m = "msg None True" and now = 42
              and s = "holding (js ''  '')"]
  note c = handleOnMessage_emits [where m = "msg (Some (js ''world'')) False" and now = 42
              and s = "holding (js ''hello '')"]
  show ?thesis
    using a b c
    by (simp add: msg_simps holding_buffer cat ts trim_examples ne updates_simps)
qed



section \<open>The transcript store\<close>

text \<open>
  C8. A confirmed clear empties the finalized list. The in-progress text is left as it was
  when the connection state is CONNECTED, and is emptied when it is DISCONNECTED.
\<close>

theorem clearTranscripts_confirmed:
  "transcripts (fst (clearTranscripts True a)) = []
   \<and> (connectionState a = CONNECTED \<longrightarrow>
        currentText (fst (clearTranscripts True a)) = currentText a)
   \<and> (connectionState a = DISCONNECTED \<longrightarrow>
        currentText (fst (clearTranscripts True a)) = [])"
  by (simp add: clearTranscripts_def truthy_def Let_def)

theorem clearTranscripts_confirmed_witness:
  "connectionState (mounted\<lparr>connectionState := CONNECTED, transcripts := [final_item (js ''a'')],
       currentText := js ''b''\<rparr>) = CONNECTED
   \<and> clearTranscripts True (mounted\<lparr>connectionState := CONNECTED,
         transcripts := [final_item (js ''a'')], currentText := js ''b''\<rparr>) =
       (mounted\<lparr>connectionState := CONNECTED, transcripts := [], currentText := js ''b''\<rparr>,
        [WindowConfirm])
   \<and> connectionState (mounted\<lparr>transcripts := [final_item (js ''a'')],
         currentText := js ''b''\<rparr>) = DISCONNECTED
   \<and> currentText (fst (clearTranscripts True (mounted\<lparr>transcripts := [final_item (js ''a'')],
         currentText := js ''b''\<rparr>))) = []
   \<and> transcripts (fst (clearTranscripts True (mounted\<lparr>transcripts := [final_item (js ''a'')],
         currentText := js ''b''\<rparr>))) = []"
proof -
  note a = clearTranscripts_confirmed [where a = "mounted\<lparr>connectionState := CONNECTED,
              transcripts := [final_item (js ''a'')], currentText := js ''b''\<rparr>"]
  note b = clearTranscripts_confirmed [where a = "mounted\<lparr>transcripts := [final_item (js ''a'')],
              currentText := js ''b''\<rparr>"]
  show ?thesis
    using a b
    by (simp add: mounted_def initial_def clearTranscripts_def truthy_def)
qed

section \<open>disconnect\<close>

lemma try_session_close_eq:
  "try_session_close ss = (Inr (), SessionClose ss # (if close_throws ss then [ConsoleWarn] else []))"
  by (simp add: try_session_close_def session_close_def)

lemma statusChanges_quiet: "list_all quiet out \<Longrightarrow> statusChanges out = []"
  by (induction out) (auto simp: statusChanges_def quiet_def split: Effect.splits)

lemma statusChanges_snoc: "statusChanges (out @ [OnStatusChange b]) = statusChanges out @ [b]"
  by (simp add: statusChanges_def)

lemma statusChanges_Cons:
  "statusChanges (ConsoleError # out) = statusChanges out"
  "statusChanges (ConsoleLog # out) = statusChanges out"
  "statusChanges (OnError em # out) = statusChanges out"
  by (simp_all add: statusChanges_def)

lemma quiet_TrackStop: "list_all quiet (map TrackStop ts)"
  by (induction ts) (simp_all add: quiet_def)

lemma disconnect_result:
  "\<exists>out. disconnect s = (Inr (), released, out @ [OnStatusChange False]) \<and> list_all quiet out
       \<and> (\<forall>ss. session s = Some ss \<longrightarrow> SessionClose ss \<in> set out)"
  by (cases s) (simp add: disconnect_def released_def try_session_close_eq quiet_TrackStop Let_def
     quiet_def split: option.splits)

lemma disconnect_released: "disconnect released = (Inr (), released, [OnStatusChange False])"
  by (simp add: disconnect_def released_def)

text \<open>
  C3. From every state of the service, \<open>disconnect\<close> completes normally, leaves every
  resource field null and the buffer empty, and calls \<open>onStatusChange\<close> exactly once, with
  \<open>false\<close>. So does a second call right after the first, and so do the connection-error
  and connection-closed callbacks, which run \<open>disconnect\<close>.
\<close>

theorem disconnect_safe:
  "(\<exists>out. disconnect s = (Inr (), released, out) \<and> statusChanges out = [False])
   \<and> disconnect (fst (snd (disconnect s))) = (Inr (), released, [OnStatusChange False])
   \<and> (\<exists>out. handleOnError s = (Inr (), released, out) \<and> statusChanges out = [False])
   \<and> (\<exists>out. handleOnClose s = (Inr (), released, out) \<and> statusChanges out = [False])"
proof -
  obtain out where d: "disconnect s = (Inr (), released, out @ [OnStatusChange False])"
    and q: "list_all quiet out"
    using disconnect_result by blast
  have n: "statusChanges (out @ [OnStatusChange False]) = [False]"
    using q by (simp add: statusChanges_snoc statusChanges_quiet)
  have a: "\<exists>out. disconnect s = (Inr (), released, out) \<and> statusChanges out = [False]"
    using d n by blast
  have b: "disconnect (fst (snd (disconnect s))) = (Inr (), released, [OnStatusChange False])"
    using d by (simp add: disconnect_released)
  have c: "\<exists>out. handleOnError s = (Inr (), released, out) \<and> statusChanges out = [False]"
    using d n by (simp add: handleOnError_def statusChanges_Cons)
  have e: "\<exists>out. handleOnClose s = (Inr (), released, out) \<and> statusChanges out = [False]"
    using d n by (simp add: handleOnClose_def statusChanges_Cons)
  from a b c e show ?thesis by blast
qed

section \<open>Operations on the transcript store\<close>

lemma fold_deliver_quiet: "list_all quiet out \<Longrightarrow> fold deliver out a = a"
  by (induction out arbitrary: a) (auto simp: deliver_def quiet_def split: Effect.splits)

lemma liveService_disconnect_Some:
  assumes "liveService a = Some svc"
  shows "\<exists>out. liveService_disconnect a =
            (a\<lparr>liveService := Some released, connectionState := DISCONNECTED, audioStream := None\<rparr>,
             map Service out @ [Service (OnStatusChange False)])
          \<and> list_all quiet out \<and> (\<forall>ss. session svc = Some ss \<longrightarrow> SessionClose ss \<in> set out)"
proof -
  obtain out where d: "disconnect svc = (Inr (), released, out @ [OnStatusChange False])"
    and q: "list_all quiet out" and c: "\<forall>ss. session svc = Some ss \<longrightarrow> SessionClose ss \<in> set out"
    using disconnect_result by blast
  have "liveService_disconnect a =
            (a\<lparr>liveService := Some released, connectionState := DISCONNECTED, audioStream := None\<rparr>,
             map Service out @ [Service (OnStatusChange False)])"
    using assms d q
    by (simp add: liveService_disconnect_def fold_deliver_quiet deliver_def handleStatusChange_def)
  with q c show ?thesis by blast
qed

lemma liveService_disconnect_frame:
  "liveService_disconnect a = (a2, out) \<Longrightarrow>
     transcripts a2 = transcripts a \<and> currentText a2 = currentText a"
proof (cases "liveService a")
  case None
  then show "liveService_disconnect a = (a2, out) \<Longrightarrow> ?thesis"
    by (auto simp: liveService_disconnect_def)
next
  case (Some svc)
  from liveService_disconnect_Some [OF Some]
  show "liveService_disconnect a = (a2, out) \<Longrightarrow> ?thesis" by auto
qed

lemma transcribe_try_frame:
  "transcribe_try env f a = Some (r, a3, out) \<Longrightarrow>
     currentText a3 = currentText a \<and>
     (transcripts a3 = transcripts a
      \<or> (\<exists>item. \<not> isPartial item \<and> transcripts a3 = transcripts a @ [item]))"
  by (auto simp: transcribe_try_def split: option.splits sum.splits if_splits prod.splits)

lemma handleFileUpload_frame:
  assumes "handleFileUpload env sel a = Some (a', out)"
  shows "currentText a' = currentText a \<and>
     (transcripts a' = transcripts a
      \<or> (\<exists>item. \<not> isPartial item \<and> transcripts a' = transcripts a @ [item]))"
proof (cases sel)
  case None
  with assms show ?thesis by (simp add: handleFileUpload_def)
next
  case (Some f)
  define a1 where "a1 = a\<lparr>isUploading := True, error := None, uploadStatus := js ''Preparing...''\<rparr>"
  obtain a2 out0 where p: "(if connectionState a = CONNECTED then liveService_disconnect a1 else (a1, [])) = (a2, out0)"
    by (cases "(if connectionState a = CONNECTED then liveService_disconnect a1 else (a1, []))")
  have f2: "transcripts a2 = transcripts a \<and> currentText a2 = currentText a"
    using p liveService_disconnect_frame [of a1 a2 out0]
    by (auto simp: a1_def split: if_splits)
  from assms Some p [unfolded a1_def] obtain r a3 out1 where t: "transcribe_try env f a2 = Some (r, a3, out1)"
    and e: "transcripts a' = transcripts a3 \<and> currentText a' = currentText a3"
    by (auto simp: handleFileUpload_def Let_def split: option.splits sum.splits prod.splits)
  from transcribe_try_frame [OF t] f2 e show ?thesis by auto
qed

text \<open>
  C7. Every operation on the component leaves the finalized list as it was, or appends one
  finalized item at its end, or is the confirmed clear and empties it. A list without
  partial items stays so, and then the component holds at most one in-progress entry, its
  in-progress text.
\<close>

theorem store_append_only:
  assumes "store_step op a = Some a'"
  shows "(transcripts a' = transcripts a
          \<or> (\<exists>item. \<not> isPartial item \<and> transcripts a' = transcripts a @ [item])
          \<or> (op = ClearTranscripts True \<and> transcripts a' = []))
         \<and> (list_all (\<lambda>i. \<not> isPartial i) (transcripts a) \<longrightarrow>
              list_all (\<lambda>i. \<not> isPartial i) (transcripts a') \<and> partial_entries a' \<le> 1)"
proof -
  have step: "transcripts a' = transcripts a
          \<or> (\<exists>item. \<not> isPartial item \<and> transcripts a' = transcripts a @ [item])
          \<or> (op = ClearTranscripts True \<and> transcripts a' = [])"
  proof (cases op)
    case (TranscriptionUpdate item)
    with assms show ?thesis
      by (cases "isPartial item") (auto simp: store_step_def handleTranscriptionUpdate_def)
  next
    case (StatusChange b)
    with assms show ?thesis
      by (auto simp: store_step_def handleStatusChange_def Let_def split: option.splits)
  next
    case (ErrorReport em)
    with assms show ?thesis by (auto simp: store_step_def handleError_def)
  next
    case (FileUpload env sel)
    with assms obtain out where "handleFileUpload env sel a = Some (a', out)"
      by (auto simp: store_step_def)
    from handleFileUpload_frame [OF this] show ?thesis by blast
  next
    case (ClearTranscripts answer)
    with assms show ?thesis
      by (cases answer) (auto simp: store_step_def clearTranscripts_def Let_def split: if_splits)
  qed
  have inv: "list_all (\<lambda>i. \<not> isPartial i) (transcripts a') \<and> partial_entries a' \<le> 1"
    if "list_all (\<lambda>i. \<not> isPartial i) (transcripts a)"
  proof -
    from step that have l: "list_all (\<lambda>i. \<not> isPartial i) (transcripts a')" by auto
    then have "filter isPartial (transcripts a') = []"
      by (simp add: list_all_iff filter_empty_conv)
    then show ?thesis using l by (simp add: partial_entries_def)
  qed
  from step inv show ?thesis by blast
qed

theorem store_append_only_witness:
  "store_step (TranscriptionUpdate (final_item (js ''a''))) mounted =
     Some (mounted\<lparr>transcripts := [final_item (js ''a'')]\<rparr>)
   \<and> list_all (\<lambda>i. \<not> isPartial i) (transcripts mounted)
   \<and> transcripts (mounted\<lparr>transcripts := [final_item (js ''a'')]\<rparr>) =
       transcripts mounted @ [final_item (js ''a'')]
   \<and> partial_entries (mounted\<lparr>transcripts := [final_item (js ''a'')]\<rparr>) \<le> 1"
proof -
  have h1: "store_step (TranscriptionUpdate (final_item (js ''a''))) mounted =
     Some (mounted\<lparr>transcripts := [final_item (js ''a'')]\<rparr>)"
    by (simp add: store_step_def handleTranscriptionUpdate_def final_item_def mounted_def
          initial_def)
  have h2: "list_all (\<lambda>i. \<not> isPartial i) (transcripts mounted)"
    by (simp add: mounted_def initial_def)
  have t: "transcripts (mounted\<lparr>transcripts := [final_item (js ''a'')]\<rparr>) =
       transcripts mounted @ [final_item (js ''a'')]"
    by (simp add: mounted_def initial_def)
  from store_append_only [OF h1] h1 h2 t show ?thesis by blast
qed

section \<open>The batch transcription client\<close>

lemma poll_effects:
  "poll st n ans = Some (r, out) \<Longrightarrow> set out \<subseteq> {Sleep 1000, FilesGet n}"
proof (induction st n ans arbitrary: r out rule: poll.induct)
  case (1 st fileName answers)
  show ?case
  proof (cases "st \<noteq> Some (js ''PROCESSING'')")
    case True
    with "1.prems" show ?thesis by (simp add: poll.simps)
  next
    case False
    then have st: "st = Some (js ''PROCESSING'')" by simp
    show ?thesis
    proof (cases answers)
      case Nil
      with "1.prems" st show ?thesis by (simp add: poll.simps)
    next
      case (Cons x rest)
      show ?thesis
      proof (cases x)
        case (Inl e)
        with "1.prems" st Cons show ?thesis by (auto simp: poll.simps)
      next
        case (Inr resp)
        show ?thesis
        proof (cases "state (fileResult_of resp) = Some (js ''FAILED'')")
          case True
          with "1.prems" st Cons Inr show ?thesis by (auto simp: poll.simps)
        next
          case False
          have unf: "poll (Some (js ''PROCESSING'')) fileName (Inr resp # rest) =
              (case poll (state (fileResult_of resp)) fileName rest of
                 None \<Rightarrow> None
               | Some (res, out) \<Rightarrow> Some (res, [Sleep 1000, FilesGet fileName] @ out))"
            using False by (subst poll.simps) (simp add: Let_def)
          from "1.prems" st Cons Inr unf obtain out' where
            p: "poll (state (fileResult_of resp)) fileName rest = Some (r, out')"
            and o: "out = [Sleep 1000, FilesGet fileName] @ out'"
            by (auto split: option.splits prod.splits)
          from "1.IH" [OF _ Cons Inr refl False p] st have "set out' \<subseteq> {Sleep 1000, FilesGet fileName}"
            by simp
          with o show ?thesis by auto
        qed
      qed
    qed
  qed
qed

lemma upload_try_effects:
  assumes "upload_try env f = Some (r, out)"
  shows "\<exists>n rest. out = FilesUpload f # rest \<and> set rest \<subseteq> {Sleep 1000, FilesGet n, ConsoleErrorApp}
         \<and> (\<forall>t d. r \<noteq> Inr (InlineData t d))"
  using assms
  by (auto simp: upload_try_def Let_def split: sum.splits option.splits if_splits prod.splits
        dest!: poll_effects)

lemma contentPart_of_small:
  "size_file f < 20 * 1024 * 1024 \<Longrightarrow>
     contentPart_of env f =
       Some (case read_result env of Inl e \<Rightarrow> Inl e | Inr d \<Rightarrow> Inr (InlineData (type_file f) d),
             [FileToBase64 f])"
  by (simp add: contentPart_of_def split: sum.splits)

lemma contentPart_of_large:
  assumes "\<not> size_file f < 20 * 1024 * 1024" and "contentPart_of env f = Some (r, out)"
  shows "\<exists>n rest. out = FilesUpload f # rest \<and> set rest \<subseteq> {Sleep 1000, FilesGet n, ConsoleErrorApp}
         \<and> (\<forall>t d. r \<noteq> Inr (InlineData t d))"
proof -
  from assms obtain r' out' where u: "upload_try env f = Some (r', out')"
    and o: "out = out' \<or> out = out' @ [ConsoleErrorApp]"
    and rr: "(\<exists>e. r = Inl e) \<or> r = r'"
    by (auto simp: contentPart_of_def split: option.splits sum.splits prod.splits)
  from upload_try_effects [OF u] obtain n rest where
    "out' = FilesUpload f # rest" "set rest \<subseteq> {Sleep 1000, FilesGet n, ConsoleErrorApp}"
    "\<forall>t d. r' \<noteq> Inr (InlineData t d)"
    by blast
  with o rr show ?thesis by auto
qed


lemma transcribe_try_trace:
  assumes "transcribe_try env f a = Some (r, a3, out1)"
  shows "\<exists>rc oc gen. contentPart_of env f = Some (rc, oc) \<and> out1 = oc @ gen
           \<and> (case rc of Inl e \<Rightarrow> gen = [] | Inr p \<Rightarrow> gen = [GenerateContent p])
           \<and> liveService a3 = liveService a \<and> connectionState a3 = connectionState a"
  using assms
  by (auto simp: transcribe_try_def split: option.splits sum.splits if_splits prod.splits)

lemma handleFileUpload_trace:
  assumes "handleFileUpload env (Some f) a = Some (a', out)"
  shows "\<exists>a2 out0 rc oc gen out2.
           (if connectionState a = CONNECTED
            then liveService_disconnect
                   (a\<lparr>isUploading := True, error := None, uploadStatus := js ''Preparing...''\<rparr>)
            else (a\<lparr>isUploading := True, error := None, uploadStatus := js ''Preparing...''\<rparr>, []))
             = (a2, out0)
           \<and> contentPart_of env f = Some (rc, oc)
           \<and> (case rc of Inl e \<Rightarrow> gen = [] | Inr p \<Rightarrow> gen = [GenerateContent p])
           \<and> (out2 = [] \<or> out2 = [ConsoleErrorApp])
           \<and> out = out0 @ oc @ gen @ out2 @ [ResetFileInput]
           \<and> liveService a' = liveService a2 \<and> connectionState a' = connectionState a2"
proof -
  obtain a2 out0 where p:
    "(if connectionState a = CONNECTED
      then liveService_disconnect
             (a\<lparr>isUploading := True, error := None, uploadStatus := js ''Preparing...''\<rparr>)
      else (a\<lparr>isUploading := True, error := None, uploadStatus := js ''Preparing...''\<rparr>, []))
       = (a2, out0)"
    by (cases "(if connectionState a = CONNECTED
      then liveService_disconnect
             (a\<lparr>isUploading := True, error := None, uploadStatus := js ''Preparing...''\<rparr>)
      else (a\<lparr>isUploading := True, error := None, uploadStatus := js ''Preparing...''\<rparr>, []))")
  from assms p obtain r a3 out1 out2 where t: "transcribe_try env f a2 = Some (r, a3, out1)"
    and o: "out = out0 @ out1 @ out2 @ [ResetFileInput]"
    and o2: "out2 = [] \<or> out2 = [ConsoleErrorApp]"
    and e: "liveService a' = liveService a3 \<and> connectionState a' = connectionState a3"
    by (auto simp: handleFileUpload_def Let_def split: option.splits sum.splits prod.splits)
  from transcribe_try_trace [OF t] obtain rc oc gen where
    "contentPart_of env f = Some (rc, oc)" "out1 = oc @ gen"
    "(case rc of Inl e \<Rightarrow> gen = [] | Inr p \<Rightarrow> gen = [GenerateContent p])"
    "liveService a3 = liveService a2 \<and> connectionState a3 = connectionState a2"
    by blast
  with p o o2 e show ?thesis by auto
qed

lemma liveService_disconnect_effects:
  "liveService_disconnect a = (a2, out0) \<Longrightarrow> \<exists>es. out0 = map Service es"
  by (auto simp: liveService_disconnect_def split: option.splits prod.splits)

text \<open>
  C5. A file whose size is below 20 MiB is read and submitted inline, and its upload always
  returns; a file of 20 MiB or more, so one of exactly 20 MiB, is uploaded through the Files
  API and submitted by reference, never inline.
\<close>

theorem upload_path_by_size:
  "(size_file f < 20 * 1024 * 1024 \<longrightarrow>
      (\<exists>a' out. handleFileUpload env (Some f) a = Some (a', out)))
   \<and> (\<forall>a' out. handleFileUpload env (Some f) a = Some (a', out) \<longrightarrow>
        (size_file f < 20 * 1024 * 1024 \<longrightarrow>
           FileToBase64 f \<in> set out \<and> FilesUpload f \<notin> set out
           \<and> (\<forall>p. GenerateContent p \<in> set out \<longrightarrow> (\<exists>d. p = InlineData (type_file f) d)))
        \<and> (20 * 1024 * 1024 \<le> size_file f \<longrightarrow>
           FilesUpload f \<in> set out \<and> FileToBase64 f \<notin> set out
           \<and> (\<forall>p. GenerateContent p \<in> set out \<longrightarrow> (\<exists>u mt. p = FileData u mt))))"
proof -
  have total: "\<exists>a' out. handleFileUpload env (Some f) a = Some (a', out)"
    if "size_file f < 20 * 1024 * 1024"
    using that
    by (simp add: handleFileUpload_def transcribe_try_def contentPart_of_small Let_def
          split: sum.splits option.splits prod.splits)
  have paths: "(size_file f < 20 * 1024 * 1024 \<longrightarrow>
           FileToBase64 f \<in> set out \<and> FilesUpload f \<notin> set out
           \<and> (\<forall>p. GenerateContent p \<in> set out \<longrightarrow> (\<exists>d. p = InlineData (type_file f) d)))
        \<and> (20 * 1024 * 1024 \<le> size_file f \<longrightarrow>
           FilesUpload f \<in> set out \<and> FileToBase64 f \<notin> set out
           \<and> (\<forall>p. GenerateContent p \<in> set out \<longrightarrow> (\<exists>u mt. p = FileData u mt)))"
    if h: "handleFileUpload env (Some f) a = Some (a', out)" for a' out
  proof -
    from handleFileUpload_trace [OF h] obtain a2 out0 rc oc gen out2 where
      p: "(if connectionState a = CONNECTED
            then liveService_disconnect
                   (a\<lparr>isUploading := True, error := None, uploadStatus := js ''Preparing...''\<rparr>)
            else (a\<lparr>isUploading := True, error := None, uploadStatus := js ''Preparing...''\<rparr>, []))
             = (a2, out0)"
      and c: "contentPart_of env f = Some (rc, oc)"
      and g: "(case rc of Inl e \<Rightarrow> gen = [] | Inr p \<Rightarrow> gen = [GenerateContent p])"
      and o2: "out2 = [] \<or> out2 = [ConsoleErrorApp]"
      and o: "out = out0 @ oc @ gen @ out2 @ [ResetFileInput]"
      by blast
    from p obtain es where es: "out0 = map Service es"
      using liveService_disconnect_effects [of _ a2 out0] by (auto split: if_splits)
    show ?thesis
    proof (cases "size_file f < 20 * 1024 * 1024")
      case True
      with c contentPart_of_small [OF True, of env]
      have oc: "oc = [FileToBase64 f]"
        and rc: "rc = (case read_result env of Inl e \<Rightarrow> Inl e | Inr d \<Rightarrow> Inr (InlineData (type_file f) d))"
        by simp_all
      from True o es oc rc g o2 show ?thesis
        by (auto split: sum.splits)
    next
      case False
      from contentPart_of_large [OF False c] obtain n rest where
        oc: "oc = FilesUpload f # rest" and r: "set rest \<subseteq> {Sleep 1000, FilesGet n, ConsoleErrorApp}"
        and ni: "\<forall>t d. rc \<noteq> Inr (InlineData t d)"
        by blast
      have gp: "\<exists>u mt. p = FileData u mt" if "GenerateContent p \<in> set gen" for p
        using that g ni by (cases rc; cases p) auto
      have gs: "FileToBase64 f \<notin> set gen"
        using g by (cases rc) auto
      from False o es oc r o2 gp gs show ?thesis
        by (auto split: sum.splits)
    qed
  qed
  from total paths show ?thesis by blast
qed


lemma js_state_neq:
  "js ''ACTIVE'' \<noteq> js ''PROCESSING''"
  "js ''PROCESSING'' \<noteq> js ''FAILED''"
  "js ''ACTIVE'' \<noteq> js ''FAILED''"
  by (simp_all add: js_def)

lemma truthy_js: "truthy (js (c # cs))"
  by (simp add: truthy_def js_def)

lemma poll_example:
  "poll (Some (js ''PROCESSING'')) n [Inr (info ''ACTIVE'')] = Some (Inr (), [Sleep 1000, FilesGet n])"
  by (simp add: poll.simps [of "Some (js ''PROCESSING'')"] poll.simps [of "Some (js ''ACTIVE'')"]
        info_def fileResult_of_def js_state_neq)

lemma contentPart_of_example:
  "contentPart_of answers (wav 20971520) =
     Some (Inr (FileData (js ''files/u1'') (js ''audio/wav'')),
           [FilesUpload (wav 20971520), Sleep 1000, FilesGet (Some (js ''u1''))])"
  by (simp add: contentPart_of_def upload_try_def answers_def wav_def info_def fileResult_of_def
        truthy_js poll_example [unfolded info_def])

lemma handleFileUpload_example_large:
  "\<exists>a'. handleFileUpload answers (Some (wav 20971520)) mounted =
     Some (a', [FilesUpload (wav 20971520), Sleep 1000, FilesGet (Some (js ''u1'')),
                GenerateContent (FileData (js ''files/u1'') (js ''audio/wav'')), ResetFileInput])"
  by (simp add: handleFileUpload_def transcribe_try_def contentPart_of_example mounted_def
        initial_def truthy_js) (simp add: answers_def truthy_js)

lemma handleFileUpload_example_small:
  "\<exists>a'. handleFileUpload answers (Some (wav 20971519)) mounted =
     Some (a', [FileToBase64 (wav 20971519),
                GenerateContent (InlineData (js ''audio/wav'') (js ''UklGRg=='')), ResetFileInput])"
  by (simp add: handleFileUpload_def transcribe_try_def contentPart_of_def mounted_def
        initial_def truthy_js wav_def) (simp add: answers_def truthy_js)

theorem upload_path_by_size_witness:
  "20 * 1024 * 1024 \<le> size_file (wav 20971520)
   \<and> (\<exists>a'. handleFileUpload answers (Some (wav 20971520)) mounted =
     Some (a', [FilesUpload (wav 20971520), Sleep 1000, FilesGet (Some (js ''u1'')),
                GenerateContent (FileData (js ''files/u1'') (js ''audio/wav'')), ResetFileInput]))
   \<and> FileToBase64 (wav 20971520) \<notin>
        set [FilesUpload (wav 20971520), Sleep 1000, FilesGet (Some (js ''u1'')),
             GenerateContent (FileData (js ''files/u1'') (js ''audio/wav'')), ResetFileInput]
   \<and> size_file (wav 20971519) < 20 * 1024 * 1024
   \<and> (\<exists>a'. handleFileUpload answers (Some (wav 20971519)) mounted =
     Some (a', [FileToBase64 (wav 20971519),
                GenerateContent (InlineData (js ''audio/wav'') (js ''UklGRg=='')), ResetFileInput]))
   \<and> FilesUpload (wav 20971519) \<notin>
        set [FileToBase64 (wav 20971519),
             GenerateContent (InlineData (js ''audio/wav'') (js ''UklGRg=='')), ResetFileInput]"
proof -
  have h1: "20 * 1024 * 1024 \<le> size_file (wav 20971520)" by (simp add: wav_def)
  have h2: "size_file (wav 20971519) < 20 * 1024 * 1024" by (simp add: wav_def)
  note a = upload_path_by_size [where f = "wav 20971520" and env = answers and a = mounted]
  note b = upload_path_by_size [where f = "wav 20971519" and env = answers and a = mounted]
  from handleFileUpload_example_large obtain a1 where
    e1: "handleFileUpload answers (Some (wav 20971520)) mounted =
     Some (a1, [FilesUpload (wav 20971520), Sleep 1000, FilesGet (Some (js ''u1'')),
                GenerateContent (FileData (js ''files/u1'') (js ''audio/wav'')), ResetFileInput])"
    by blast
  from handleFileUpload_example_small obtain a2 where
    e2: "handleFileUpload answers (Some (wav 20971519)) mounted =
     Some (a2, [FileToBase64 (wav 20971519),
                GenerateContent (InlineData (js ''audio/wav'') (js ''UklGRg=='')), ResetFileInput])"
    by blast
  from a h1 e1 have c1: "FileToBase64 (wav 20971520) \<notin>
        set [FilesUpload (wav 20971520), Sleep 1000, FilesGet (Some (js ''u1'')),
             GenerateContent (FileData (js ''files/u1'') (js ''audio/wav'')), ResetFileInput]"
    by blast
  from b h2 e2 have c2: "FilesUpload (wav 20971519) \<notin>
        set [FileToBase64 (wav 20971519),
             GenerateContent (InlineData (js ''audio/wav'') (js ''UklGRg=='')), ResetFileInput]"
    by blast
  from h1 h2 c1 c2 e1 e2 show ?thesis by blast
qed

lemma contentPart_of_no_service:
  assumes "contentPart_of env f = Some (rc, oc)"
  shows "\<forall>e'. Service e' \<notin> set oc"
proof (cases "size_file f < 20 * 1024 * 1024")
  case True
  from assms contentPart_of_small [OF True, of env] show ?thesis by auto
next
  case False
  from contentPart_of_large [OF False assms] show ?thesis by auto
qed

text \<open>
  C6. When a file is selected while the connection state is CONNECTED (the component
  being mounted), the trace of the upload starts with the release calls of
  \<open>disconnect\<close>, among them the close of the open session, followed by its
  \<open>onStatusChange(false)\<close>; the transcription request comes after it, no other
  effect of the service follows, and the service ends released, the state DISCONNECTED.
\<close>

theorem upload_disconnects_first:
  assumes "connectionState a = CONNECTED" and "liveService a = Some svc"
    and "handleFileUpload env (Some f) a = Some (a', out)"
  shows "\<exists>pre post. out = map Service pre @ Service (OnStatusChange False) # post
           \<and> list_all quiet pre
           \<and> (\<forall>ss. session svc = Some ss \<longrightarrow> SessionClose ss \<in> set pre)
           \<and> (\<forall>e'. Service e' \<notin> set post)
           \<and> (\<forall>p oc. contentPart_of env f = Some (Inr p, oc) \<longrightarrow> GenerateContent p \<in> set post)
           \<and> liveService a' = Some released \<and> connectionState a' = DISCONNECTED"
proof -
  let ?a1 = "a\<lparr>isUploading := True, error := None, uploadStatus := js ''Preparing...''\<rparr>"
  have ls: "liveService ?a1 = Some svc" using assms(2) by simp
  from liveService_disconnect_Some [OF ls] obtain pre where
    d: "liveService_disconnect ?a1 =
          (?a1\<lparr>liveService := Some released, connectionState := DISCONNECTED, audioStream := None\<rparr>,
           map Service pre @ [Service (OnStatusChange False)])"
    and q: "list_all quiet pre"
    and c: "\<forall>ss. session svc = Some ss \<longrightarrow> SessionClose ss \<in> set pre"
    by blast
  from handleFileUpload_trace [OF assms(3)] assms(1) d obtain rc oc gen out2 where
    cp: "contentPart_of env f = Some (rc, oc)"
    and g: "(case rc of Inl e \<Rightarrow> gen = [] | Inr p \<Rightarrow> gen = [GenerateContent p])"
    and o2: "out2 = [] \<or> out2 = [ConsoleErrorApp]"
    and o: "out = (map Service pre @ [Service (OnStatusChange False)]) @ oc @ gen @ out2 @ [ResetFileInput]"
    and st: "liveService a' = Some released \<and> connectionState a' = DISCONNECTED"
    by auto
  let ?post = "oc @ gen @ out2 @ [ResetFileInput]"
  have o': "out = map Service pre @ Service (OnStatusChange False) # ?post"
    using o by simp
  have ns: "\<forall>e'. Service e' \<notin> set ?post"
    using contentPart_of_no_service [OF cp] g o2 by (cases rc) auto
  have gen: "\<forall>p oc'. contentPart_of env f = Some (Inr p, oc') \<longrightarrow> GenerateContent p \<in> set ?post"
    using cp g by auto
  from o' q c ns gen st show ?thesis by blast
qed

theorem upload_disconnects_first_witness:
  "connectionState (mounted\<lparr>connectionState := CONNECTED,
       liveService := Some (released\<lparr>session := Some \<lparr>session_id = 7, close_throws = False\<rparr>\<rparr>)\<rparr>) = CONNECTED
   \<and> (\<exists>a'. handleFileUpload answers (Some (wav 1000))
         (mounted\<lparr>connectionState := CONNECTED,
            liveService := Some (released\<lparr>session := Some \<lparr>session_id = 7, close_throws = False\<rparr>\<rparr>)\<rparr>) =
       Some (a', [Service (SessionClose \<lparr>session_id = 7, close_throws = False\<rparr>),
                  Service (OnStatusChange False),
                  FileToBase64 (wav 1000),
                  GenerateContent (InlineData (js ''audio/wav'') (js ''UklGRg=='')),
                  ResetFileInput])
       \<and> liveService a' = Some released \<and> connectionState a' = DISCONNECTED)"
proof -
  let ?svc = "released\<lparr>session := Some \<lparr>session_id = 7, close_throws = False\<rparr>\<rparr>"
  let ?a = "mounted\<lparr>connectionState := CONNECTED, liveService := Some ?svc\<rparr>"
  have h1: "connectionState ?a = CONNECTED" by simp
  have h2: "liveService ?a = Some ?svc" by simp
  have d: "disconnect ?svc = (Inr (), released,
             [SessionClose \<lparr>session_id = 7, close_throws = False\<rparr>, OnStatusChange False])"
    by (simp add: disconnect_def released_def try_session_close_def session_close_def)
  have h3: "\<exists>a'. handleFileUpload answers (Some (wav 1000)) ?a =
       Some (a', [Service (SessionClose \<lparr>session_id = 7, close_throws = False\<rparr>),
                  Service (OnStatusChange False),
                  FileToBase64 (wav 1000),
                  GenerateContent (InlineData (js ''audio/wav'') (js ''UklGRg=='')),
                  ResetFileInput])"
    by (simp add: handleFileUpload_def transcribe_try_def contentPart_of_def liveService_disconnect_def
          d deliver_def handleStatusChange_def mounted_def initial_def truthy_js wav_def)
       (simp add: answers_def truthy_js)
  then obtain a' where e: "handleFileUpload answers (Some (wav 1000)) ?a =
       Some (a', [Service (SessionClose \<lparr>session_id = 7, close_throws = False\<rparr>),
                  Service (OnStatusChange False),
                  FileToBase64 (wav 1000),
                  GenerateContent (InlineData (js ''audio/wav'') (js ''UklGRg=='')),
                  ResetFileInput])"
    by blast
  from upload_disconnects_first [OF h1 h2 e]
  have "liveService a' = Some released \<and> connectionState a' = DISCONNECTED" by blast
  with h1 e show ?thesis by blast
qed

end
